theory Spec2Isabelle
  imports Complex_Main "HOL-Library.Multiset"
begin

section \<open>Data model\<close>

text \<open>
  The exceptions the Python source can raise on the paths modelled here.
\<close>

datatype error = KeyError | IndexError | TypeError | AttributeError | NetworkXError

text \<open>
  The attribute dictionary of an ontology node.  Every node carries a display name
  (the source indexes \<^verbatim>\<open>data['name']\<close> unguarded); the keys
  \<^verbatim>\<open>'synonyms'\<close> and \<^verbatim>\<open>'alt_id'\<close> may be absent, which is \<open>None\<close> here.
\<close>

record node_data =
  name :: string
  synonyms :: "string list option"
  alt_id :: "string list option"

text \<open>
  A networkx digraph: the nodes in insertion order with their attributes, and the edges.
  In \<open>hpo_network\<close> (the reversed phenopy network) an edge \<open>(p, c)\<close> goes from a
  parent term to a child term.
\<close>

record 'd graph =
  nodes :: "(string \<times> 'd) list"
  edges :: "(string \<times> string) list"

text \<open>
  The engine object: the fields set by the constructor.  The pairwise scorer
  \<^verbatim>\<open>self.scorer.score_hpo_pair_hrss\<close> belongs to phenopy and is a parameter.
\<close>

text \<open>
  A Python dictionary: the items in insertion order, with distinct keys.  Assigning to
  a key that is present replaces its value in place, assigning to a new key appends.
\<close>

type_synonym ('k, 'v) pydict = "('k \<times> 'v) list"

fun dict_set :: "('k, 'v) pydict \<Rightarrow> 'k \<Rightarrow> 'v \<Rightarrow> ('k, 'v) pydict" where
  "dict_set [] k v = [(k, v)]"
| "dict_set ((k', v') # kvs) k v =
     (if k' = k then (k, v) # kvs else (k', v') # dict_set kvs k v)"

definition dict_update :: "('k, 'v) pydict \<Rightarrow> ('k \<times> 'v) list \<Rightarrow> ('k, 'v) pydict" where
  "dict_update d kvs = foldl (\<lambda>acc (k, v). dict_set acc k v) d kvs"

definition dict_get :: "('k, 'v) pydict \<Rightarrow> 'k \<Rightarrow> 'v option" where
  "dict_get d k = map_of d k"

record SimScorer =
  hpo_network :: "node_data graph"
  name_to_id_and_reverse :: "(string, string) pydict"
  scorer :: "string \<Rightarrow> string \<Rightarrow> real"

definition node_ids :: "'d graph \<Rightarrow> string list" where
  "node_ids g = map fst (nodes g)"

section \<open>calc_similarity\<close>

text \<open>Python's \<^verbatim>\<open>sub in s\<close> on strings: \<open>sub\<close> occurs in \<open>s\<close> as a contiguous block.\<close>

fun starts_with :: "string \<Rightarrow> string \<Rightarrow> bool" where
  "starts_with [] s = True"
| "starts_with (c # cs) [] = False"
| "starts_with (c # cs) (d # ds) = (c = d \<and> starts_with cs ds)"

fun str_in :: "string \<Rightarrow> string \<Rightarrow> bool" where
  "str_in sub [] = (sub = [])"
| "str_in sub (c # cs) = (starts_with sub (c # cs) \<or> str_in sub cs)"

text \<open>
  The element expression of the comprehension in lines 164 and 165:
  \<^verbatim>\<open>term if 'HP' in term else self.name_to_id_and_reverse[term]\<close>.
\<close>

definition resolve_term :: "SimScorer \<Rightarrow> string \<Rightarrow> error + string" where
  "resolve_term self t =
     (if str_in ''HP'' t then Inr t
      else (case dict_get (name_to_id_and_reverse self) t of None \<Rightarrow> Inl KeyError | Some v \<Rightarrow> Inr v))"

text \<open>
  The whole comprehension
  \<^verbatim>\<open>[... for term in terms if term in hpo_nodes]\<close>: the condition is tested on the
  token as given, the element expression is evaluated only for tokens that pass.
\<close>

fun proc_terms :: "SimScorer \<Rightarrow> string list \<Rightarrow> error + string list" where
  "proc_terms self [] = Inr []"
| "proc_terms self (t # ts) =
     (if t \<in> set (node_ids (hpo_network self)) then
        (case resolve_term self t of
           Inl e \<Rightarrow> Inl e
         | Inr v \<Rightarrow> (case proc_terms self ts of Inl e \<Rightarrow> Inl e | Inr vs \<Rightarrow> Inr (v # vs)))
      else proc_terms self ts)"

text \<open>
  The inner loops: \<^verbatim>\<open>max_score = 0\<close>, then
  \<^verbatim>\<open>max_score = max(max_score, score)\<close> for each term of the other list.
\<close>

definition max_score :: "(string \<Rightarrow> real) \<Rightarrow> string list \<Rightarrow> real" where
  "max_score f ts = foldl (\<lambda>m t. max m (f t)) 0 ts"

text \<open>
  \<^verbatim>\<open>np.average\<close> of a one-dimensional array; the mean of an empty array is
  NaN, which is \<open>None\<close> here.
\<close>

definition np_average :: "real list \<Rightarrow> real option" where
  "np_average xs = (if xs = [] then None else Some (sum_list xs / real (length xs)))"

definition bma :: "(string \<Rightarrow> string \<Rightarrow> real) \<Rightarrow> string list \<Rightarrow> string list \<Rightarrow> real" where
  "bma sc terms_a_proc terms_b_proc =
     (let max1 = map (\<lambda>term_a. max_score (\<lambda>term_b. sc term_a term_b) terms_b_proc) terms_a_proc;
          max0 = map (\<lambda>term_b. max_score (\<lambda>term_a. sc term_a term_b) terms_a_proc) terms_b_proc
      in case np_average (max1 @ max0) of None \<Rightarrow> 0 | Some average \<Rightarrow> average)"

definition calc_similarity :: "SimScorer \<Rightarrow> string list \<Rightarrow> string list \<Rightarrow> error + real" where
  "calc_similarity self terms_a terms_b =
     (case proc_terms self terms_a of
        Inl e \<Rightarrow> Inl e
      | Inr terms_a_proc \<Rightarrow>
          (case proc_terms self terms_b of
             Inl e \<Rightarrow> Inl e
           | Inr terms_b_proc \<Rightarrow> Inr (bma (scorer self) terms_a_proc terms_b_proc)))"

section \<open>Graph queries of networkx\<close>

text \<open>
  \<^verbatim>\<open>nx.ancestors(G, source)\<close> is the set of nodes with a path to \<open>source\<close>, and
  \<^verbatim>\<open>nx.descendants(G, source)\<close> the set of nodes reachable from it; neither
  contains \<open>source\<close>, and both raise when \<open>source\<close> is not a node of \<open>G\<close>.  The
  result is a set; it is listed here in node order, and the source only tests membership
  in it or visits each element once.
\<close>

definition reaches :: "'d graph \<Rightarrow> string \<Rightarrow> string \<Rightarrow> bool" where
  "reaches g u v \<longleftrightarrow> (u, v) \<in> (set (edges g))\<^sup>+"

definition nx_ancestors :: "'d graph \<Rightarrow> string \<Rightarrow> error + string list" where
  "nx_ancestors g source =
     (if source \<notin> set (node_ids g) then Inl NetworkXError
      else Inr (filter (\<lambda>n. reaches g n source \<and> n \<noteq> source) (node_ids g)))"

definition nx_descendants :: "'d graph \<Rightarrow> string \<Rightarrow> error + string list" where
  "nx_descendants g source =
     (if source \<notin> set (node_ids g) then Inl NetworkXError
      else Inr (filter (\<lambda>n. reaches g source n \<and> n \<noteq> source) (node_ids g)))"

section \<open>get_graph\<close>

text \<open>A node of the local copy: the ontology attributes and the counter.\<close>

record anode_data = node_data +
  present_in_patient :: nat


definition has_alt :: "'a node_data_scheme \<Rightarrow> string \<Rightarrow> bool" where
  "has_alt d hpo = (case alt_id d of None \<Rightarrow> False | Some alts \<Rightarrow> hpo \<in> set alts)"

text \<open>Lines 66 to 71: a token that is no node is replaced by the first node listing it as alternate ID.\<close>

definition alt_scan :: "'a node_data_scheme graph \<Rightarrow> string \<Rightarrow> string" where
  "alt_scan g hpo =
     (if hpo \<notin> set (node_ids g) then
        (case find (\<lambda>(n, d). has_alt d hpo) (nodes g) of
           None \<Rightarrow> hpo
         | Some (n, d) \<Rightarrow> n)
      else hpo)"




text \<open>
  The loop that stores, for every node with alternate IDs, each alternate ID with the
  node's display name as value (lines 86 to 89, 135 to 137 and 274 to 277).
\<close>

definition add_alt_names ::
  "(string, string) pydict \<Rightarrow> (string \<times> 'a node_data_scheme) list \<Rightarrow> (string, string) pydict" where
  "add_alt_names idx ns =
     foldl (\<lambda>acc (n, d). case alt_id d of
                            None \<Rightarrow> acc
                          | Some alts \<Rightarrow> foldl (\<lambda>a alt. dict_set a alt (name d)) acc alts) idx ns"



section \<open>The alias index built by the constructor\<close>

text \<open>
  Lines 127 to 137 of \<^verbatim>\<open>_init_calc_similarity\<close>, on the graph read by obonet.
\<close>

definition add_synonyms ::
  "(string, string) pydict \<Rightarrow> string \<Rightarrow> node_data \<Rightarrow> (string, string) pydict" where
  "add_synonyms idx node_id d =
     (case synonyms d of
        None \<Rightarrow> idx
      | Some syns \<Rightarrow> foldl (\<lambda>a syn. dict_set a syn node_id) idx syns)"

definition add_alts ::
  "(string, string) pydict \<Rightarrow> node_data \<Rightarrow> (string, string) pydict" where
  "add_alts idx d =
     (case alt_id d of
        None \<Rightarrow> idx
      | Some alts \<Rightarrow> foldl (\<lambda>a alt. dict_set a alt (name d)) idx alts)"

definition build_name_to_id_and_reverse :: "node_data graph \<Rightarrow> (string, string) pydict" where
  "build_name_to_id_and_reverse full_hpo_graph =
     (let name_to_id = dict_update [] (map (\<lambda>(node_id, d). (name d, node_id)) (nodes full_hpo_graph));
          temp_dict = dict_update [] (map (\<lambda>(k, v). (v, k)) name_to_id);
          merged = dict_update name_to_id temp_dict
      in foldl (\<lambda>idx (node_id, d). add_alts (add_synonyms idx node_id d) d) merged (nodes full_hpo_graph))"

text \<open>
  The constructor.  Reading the two files is outside the engine: the annotated network
  of phenopy, the graph read by obonet and the scorer are given.  The network is stored
  reversed (line 143).
\<close>

definition reverse :: "'d graph \<Rightarrow> 'd graph" where
  "reverse g = \<lparr>nodes = nodes g, edges = map (\<lambda>(u, v). (v, u)) (edges g)\<rparr>"

definition init_calc_similarity ::
  "node_data graph \<Rightarrow> node_data graph \<Rightarrow> (string \<Rightarrow> string \<Rightarrow> real) \<Rightarrow> SimScorer" where
  "init_calc_similarity phenopy_network full_hpo_graph sc =
     \<lparr>hpo_network = reverse phenopy_network,
      name_to_id_and_reverse = build_name_to_id_and_reverse full_hpo_graph,
      scorer = sc\<rparr>"

section \<open>filter_hpo_df\<close>

definition parents_to_exclude :: "string list" where
  "parents_to_exclude =
     [''HP:0000708'', ''HP:0000271'', ''HP:0011297'', ''HP:0031703'', ''HP:0012372'']"

text \<open>Lines 279 to 284.\<close>

fun exclude_list :: "'d graph \<Rightarrow> string list \<Rightarrow> error + string list" where
  "exclude_list g [] = Inr []"
| "exclude_list g (hpo # rest) =
     (case nx_descendants g hpo of
        Inl e \<Rightarrow> Inl e
      | Inr child_nodes \<Rightarrow>
          (case exclude_list g rest of
             Inl e \<Rightarrow> Inl e
           | Inr ex \<Rightarrow> Inr (child_nodes @ [hpo] @ ex)))"

text \<open>
  Lines 270 to 284: the alternate IDs of the network's nodes are written into the
  alias index of the engine, then the exclusion list is computed.  The engine is
  returned as it is after the writes, also when the computation raises.
\<close>

definition filter_prelude :: "SimScorer \<Rightarrow> (error + string list) \<times> SimScorer" where
  "filter_prelude self =
     (let self' = self\<lparr>name_to_id_and_reverse :=
                        add_alt_names (name_to_id_and_reverse self) (nodes (hpo_network self))\<rparr>
      in (exclude_list (hpo_network self) parents_to_exclude, self'))"

text \<open>
  A cell of an object array or of a table: a list of terms, or any other value.
\<close>

datatype cell = HpoList "string list" | Feature real

text \<open>
  The shapes \<^verbatim>\<open>filter_hpo_df\<close> tells apart: a list of terms, a numpy array (of
  one or of two dimensions), a data frame (its columns by name) and a series (its
  values by label).
\<close>

datatype hpo_df =
    PyList "string list"
  | NdArray1 "cell list"
  | NdArray2 "cell list list"
  | DataFrame "(string, cell list) pydict"
  | Series "(string, cell) pydict"

text \<open>\<^verbatim>\<open>[i for i in L if i not in exclude]\<close>; a cell that is no list cannot be iterated.\<close>

fun filter_cell :: "string list \<Rightarrow> cell \<Rightarrow> error + cell" where
  "filter_cell exclude (HpoList L) = Inr (HpoList (filter (\<lambda>i. i \<notin> set exclude) L))"
| "filter_cell exclude (Feature v) = Inl TypeError"

text \<open>Evaluating a list of computations in order, up to the first that raises.\<close>

fun sequence :: "(error + 'a) list \<Rightarrow> error + 'a list" where
  "sequence [] = Inr []"
| "sequence (r # rs) =
     (case r of
        Inl e \<Rightarrow> Inl e
      | Inr v \<Rightarrow> (case sequence rs of Inl e \<Rightarrow> Inl e | Inr vs \<Rightarrow> Inr (v # vs)))"

text \<open>Line 290 on one row: the last cell is replaced by its filtered list.\<close>

definition filter_last :: "string list \<Rightarrow> cell list \<Rightarrow> error + cell list" where
  "filter_last exclude row =
     (if row = [] then Inl IndexError
      else (case filter_cell exclude (last row) of
              Inl e \<Rightarrow> Inl e
            | Inr c \<Rightarrow> Inr (butlast row @ [c])))"

text \<open>
  Lines 286 to 296.  \<^verbatim>\<open>list(set(df) - set(exclude))\<close> lists a set, in an order
  Python does not fix; the list with duplicates removed stands for it.
\<close>

definition filter_shape :: "string list \<Rightarrow> hpo_df \<Rightarrow> error + hpo_df" where
  "filter_shape exclude df =
     (case df of
        PyList l \<Rightarrow> Inr (PyList (remdups (filter (\<lambda>i. i \<notin> set exclude) l)))
      | NdArray1 cells \<Rightarrow>
          (case sequence (map (\<lambda>c. filter_last exclude [c]) cells) of
             Inl e \<Rightarrow> Inl e
           | Inr rows \<Rightarrow> Inr (NdArray2 rows))
      | NdArray2 rows \<Rightarrow>
          (case sequence (map (filter_last exclude) rows) of
             Inl e \<Rightarrow> Inl e
           | Inr rows' \<Rightarrow> Inr (NdArray2 rows'))
      | DataFrame cols \<Rightarrow>
          (case dict_get cols ''hpo_all'' of
             None \<Rightarrow> Inl KeyError
           | Some col \<Rightarrow>
               (case sequence (map (filter_cell exclude) col) of
                  Inl e \<Rightarrow> Inl e
                | Inr col' \<Rightarrow> Inr (DataFrame (dict_set cols ''hpo_all'' col'))))
      | Series vals \<Rightarrow>
          (case dict_get vals ''hpo_all'' of
             None \<Rightarrow> Inl KeyError
           | Some c \<Rightarrow>
               (case filter_cell exclude c of
                  Inl e \<Rightarrow> Inl e
                | Inr c' \<Rightarrow>
                    Inr (DataFrame (dict_set (map (\<lambda>(k, v). (k, [v])) vals) ''hpo_all'' [c'])))))"

definition filter_hpo_df :: "SimScorer \<Rightarrow> hpo_df \<Rightarrow> (error + hpo_df) \<times> SimScorer" where
  "filter_hpo_df self df =
     (case filter_prelude self of
        (Inl e, self') \<Rightarrow> (Inl e, self')
      | (Inr exclude, self') \<Rightarrow> (filter_shape exclude df, self'))"

section \<open>calc_full_sim_mat\<close>

text \<open>
  \<^verbatim>\<open>x[:, -1]\<close>: the last cell of every row.  The rows of an array have one
  length, so with a first row that is not empty none is.
\<close>

definition last_column :: "cell list list \<Rightarrow> error + cell list" where
  "last_column x = sequence (map (\<lambda>row. if row = [] then Inl IndexError else Inr (last row)) x)"

text \<open>
  \<^verbatim>\<open>.flatten()\<close> exists on numpy arrays only: a Python list and a data frame
  have no such attribute.
\<close>

fun flatten :: "hpo_df \<Rightarrow> error + cell list" where
  "flatten (NdArray2 rows) = Inr (concat rows)"
| "flatten (NdArray1 cells) = Inr cells"
| "flatten df = Inl AttributeError"

fun terms_of :: "cell \<Rightarrow> error + string list" where
  "terms_of (HpoList l) = Inr l"
| "terms_of (Feature v) = Inl TypeError"

text \<open>
  Line 212 for one pair of cells.  \<^verbatim>\<open>list(set(l))\<close> is \<open>remdups l\<close>, up to the
  order of the elements.
\<close>

definition sim_of_cells :: "SimScorer \<Rightarrow> cell \<Rightarrow> cell \<Rightarrow> error + real" where
  "sim_of_cells self ci cz =
     (case terms_of ci of
        Inl e \<Rightarrow> Inl e
      | Inr li \<Rightarrow>
          (case terms_of cz of
             Inl e \<Rightarrow> Inl e
           | Inr lz \<Rightarrow> calc_similarity self (remdups li) (remdups lz)))"

text \<open>
  The argument \<open>mlb\<close> is the binarizer (\<open>None\<close> when the caller passes none).  On the
  branch of line 205 its inverse transform gives a Python list, \<^verbatim>\<open>filter_hpo_df\<close>
  returns a list for a list, and line 209 asks that list for \<^verbatim>\<open>flatten\<close>.
\<close>

definition calc_full_sim_mat ::
  "SimScorer \<Rightarrow> cell list list \<Rightarrow> (cell list list \<Rightarrow> string list list) option
     \<Rightarrow> (error + real list list) \<times> SimScorer" where
  "calc_full_sim_mat self x mlb =
     (if x = [] \<or> hd x = [] then (Inl IndexError, self)
      else
        (case last (hd x) of
           Feature v \<Rightarrow>
             (case mlb of
                None \<Rightarrow> (Inl AttributeError, self)
              | Some inverse_transform \<Rightarrow>
                  (case filter_prelude self of
                     (Inl e, self') \<Rightarrow> (Inl e, self')
                   | (Inr exclude, self') \<Rightarrow> (Inl AttributeError, self')))
         | HpoList l \<Rightarrow>
             (case last_column x of
                Inl e \<Rightarrow> (Inl e, self)
              | Inr hpos \<Rightarrow>
                  (case filter_hpo_df self (NdArray1 hpos) of
                     (Inl e, self') \<Rightarrow> (Inl e, self')
                   | (Inr df, self') \<Rightarrow>
                       (case flatten df of
                          Inl e \<Rightarrow> (Inl e, self')
                        | Inr hpos' \<Rightarrow>
                            (sequence (map (\<lambda>ci. sequence (map (\<lambda>cz. sim_of_cells self' ci cz) hpos'))
                                           hpos'),
                             self'))))))"

section \<open>calc_sim_scores\<close>

definition bind_err :: "error + 'a \<Rightarrow> ('a \<Rightarrow> error + 'b) \<Rightarrow> error + 'b" where
  "bind_err r f = (case r of Inl e \<Rightarrow> Inl e | Inr v \<Rightarrow> f v)"

text \<open>An integer index into an axis of size \<open>n\<close>: negative indices count from the end.\<close>

definition norm_index :: "nat \<Rightarrow> int \<Rightarrow> error + nat" where
  "norm_index n i =
     (if 0 \<le> i \<and> i < int n then Inr (nat i)
      else if - int n \<le> i \<and> i < 0 then Inr (nat (int n + i))
      else Inl IndexError)"

definition take_index :: "'a list \<Rightarrow> int \<Rightarrow> error + 'a" where
  "take_index xs i = bind_err (norm_index (length xs) i) (\<lambda>j. Inr (xs ! j))"

text \<open>Indexing an axis with an array of integers.\<close>

definition take_indices :: "'a list \<Rightarrow> int list \<Rightarrow> error + 'a list" where
  "take_indices xs idx = sequence (map (take_index xs) idx)"

text \<open>\<^verbatim>\<open>m[:, idx]\<close> on the rows of a matrix.\<close>

definition take_columns :: "'a list list \<Rightarrow> int list \<Rightarrow> error + 'a list list" where
  "take_columns rows idx = sequence (map (\<lambda>row. take_indices row idx) rows)"

text \<open>
  Indexing an axis of size \<open>n\<close> with a boolean array: the sizes must agree.
\<close>

definition select_mask :: "bool list \<Rightarrow> 'a list \<Rightarrow> 'a list" where
  "select_mask msk xs = map fst (filter snd (zip xs msk))"

definition mask_columns :: "nat \<Rightarrow> 'a list list \<Rightarrow> bool list \<Rightarrow> error + 'a list list" where
  "mask_columns ncols rows msk =
     (if length msk \<noteq> ncols then Inl IndexError else Inr (map (select_mask msk) rows))"

text \<open>\<^verbatim>\<open>.mean(axis=1).reshape(-1, 1)\<close>: one mean for each row, NaN for a row without entries.\<close>

definition row_means :: "real list list \<Rightarrow> real option list" where
  "row_means rows = map np_average rows"

text \<open>\<^verbatim>\<open>np.append(a, b, axis=1)\<close> of two columns.\<close>

definition append_columns :: "'a list \<Rightarrow> 'a list \<Rightarrow> 'a list list" where
  "append_columns a b = map (\<lambda>(u, v). [u, v]) (zip a b)"

text \<open>
  The test index is an array of integers, or one integer; with one integer
  \<^verbatim>\<open>sim_mat[:, train_index][test_index, :]\<close> has one dimension.
\<close>

datatype index = IndexArray "int list" | IndexScalar int

definition calc_sim_scores ::
  "real list list \<Rightarrow> int list \<Rightarrow> index \<Rightarrow> int list
     \<Rightarrow> error + (real option list list \<times> real option list list)" where
  "calc_sim_scores sim_mat train_index test_index y_train =
     bind_err (take_columns sim_mat train_index) (\<lambda>cols.
     bind_err (take_indices cols train_index) (\<lambda>sim_mat_train.
     let ncols = length train_index;
         pat = map (\<lambda>y. y = 1) y_train;
         control = map (\<lambda>y. y = 0) y_train
     in
     (case test_index of
        IndexArray idx \<Rightarrow>
          bind_err (take_indices cols idx) (\<lambda>sim_mat_test.
          bind_err (mask_columns ncols sim_mat_train pat) (\<lambda>train_pat.
          bind_err (mask_columns ncols sim_mat_train control) (\<lambda>train_control.
          bind_err (mask_columns ncols sim_mat_test pat) (\<lambda>test_pat.
          bind_err (mask_columns ncols sim_mat_test control) (\<lambda>test_control.
          Inr (append_columns (row_means train_pat) (row_means train_control),
               append_columns (row_means test_pat) (row_means test_control)))))))
      | IndexScalar k \<Rightarrow>
          bind_err (take_index cols k) (\<lambda>sim_mat_test.
          bind_err (mask_columns ncols sim_mat_train pat) (\<lambda>train_pat.
          bind_err (mask_columns ncols sim_mat_train control) (\<lambda>train_control.
          bind_err (mask_columns ncols [sim_mat_test] pat) (\<lambda>test_pat.
          bind_err (mask_columns ncols [sim_mat_test] control) (\<lambda>test_control.
          Inr (append_columns (row_means train_pat) (row_means train_control),
               append_columns (row_means test_pat) (row_means test_control))))))))))"

section \<open>The engine's state after a call\<close>



section \<open>A small ontology\<close>

text \<open>
  A fragment of the Human Phenotype Ontology with the five excluded roots, as phenopy
  hands it over: the edges go from a child to its parent (only some of the edges of the
  ontology are kept).
\<close>

definition demo_nodes :: "(string \<times> node_data) list" where
  "demo_nodes =
     [(''HP:0000001'', \<lparr>name = ''All'', synonyms = None, alt_id = None\<rparr>),
      (''HP:0000118'', \<lparr>name = ''Phenotypic abnormality'', synonyms = None, alt_id = None\<rparr>),
      (''HP:0000708'', \<lparr>name = ''Atypical behavior'',
                         synonyms = Some [''Behavioral abnormality''], alt_id = None\<rparr>),
      (''HP:0000729'', \<lparr>name = ''Autistic behavior'', synonyms = None, alt_id = None\<rparr>),
      (''HP:0000271'', \<lparr>name = ''Abnormality of the face'', synonyms = None, alt_id = None\<rparr>),
      (''HP:0011297'', \<lparr>name = ''Abnormal digit morphology'', synonyms = None, alt_id = None\<rparr>),
      (''HP:0031703'', \<lparr>name = ''Abnormal ear morphology'', synonyms = None, alt_id = None\<rparr>),
      (''HP:0012372'', \<lparr>name = ''Abnormal eye morphology'', synonyms = None, alt_id = None\<rparr>),
      (''HP:0001250'', \<lparr>name = ''Seizure'', synonyms = Some [''Epileptic seizure''],
                         alt_id = Some [''HP:0002279'']\<rparr>),
      (''HP:0001249'', \<lparr>name = ''Intellectual disability'', synonyms = None, alt_id = None\<rparr>)]"

definition demo_phenopy_network :: "node_data graph" where
  "demo_phenopy_network =
     \<lparr>nodes = demo_nodes,
      edges = [(''HP:0000118'', ''HP:0000001''), (''HP:0000708'', ''HP:0000118''),
               (''HP:0000729'', ''HP:0000708''), (''HP:0001250'', ''HP:0000118''),
               (''HP:0001249'', ''HP:0000118'')]\<rparr>"

text \<open>A symmetric scorer: 1 for a term with itself, one half for two different terms.\<close>

definition demo_score :: "string \<Rightarrow> string \<Rightarrow> real" where
  "demo_score a b = (if a = b then 1 else 1 / 2)"

definition demo_engine :: SimScorer where
  "demo_engine = init_calc_similarity demo_phenopy_network demo_phenopy_network demo_score"





section \<open>Notions used to state the properties\<close>






text \<open>
  A term is excluded when it is one of the configured roots or a node below one of them
  in the hierarchy of the network (whose edges go from parent to child).
\<close>

definition is_excluded :: "'d graph \<Rightarrow> string \<Rightarrow> bool" where
  "is_excluded g t \<longleftrightarrow>
     (\<exists>r \<in> set parents_to_exclude. t = r \<or> (t \<in> set (node_ids g) \<and> reaches g r t))"

fun is_list :: "cell \<Rightarrow> bool" where
  "is_list (HpoList l) = True"
| "is_list (Feature v) = False"

fun cell_terms :: "cell \<Rightarrow> string list" where
  "cell_terms (HpoList l) = l"
| "cell_terms (Feature v) = []"

text \<open>The term lists a collection holds, one for each individual.\<close>

fun term_lists :: "hpo_df \<Rightarrow> string list list" where
  "term_lists (PyList l) = [l]"
| "term_lists (NdArray1 cells) = map cell_terms cells"
| "term_lists (NdArray2 rows) = map (\<lambda>row. cell_terms (last row)) rows"
| "term_lists (DataFrame cols) =
     (case dict_get cols ''hpo_all'' of None \<Rightarrow> [] | Some col \<Rightarrow> map cell_terms col)"
| "term_lists (Series vals) =
     (case dict_get vals ''hpo_all'' of None \<Rightarrow> [] | Some c \<Rightarrow> [cell_terms c])"

text \<open>
  A collection as the docstring describes it: the last column of an array, and the
  column or entry \<open>hpo_all\<close> of a table or record, hold lists of terms.
\<close>

fun well_formed_df :: "hpo_df \<Rightarrow> bool" where
  "well_formed_df (PyList l) = True"
| "well_formed_df (NdArray1 cells) = list_all is_list cells"
| "well_formed_df (NdArray2 rows) = list_all (\<lambda>row. row \<noteq> [] \<and> is_list (last row)) rows"
| "well_formed_df (DataFrame cols) =
     (case dict_get cols ''hpo_all'' of None \<Rightarrow> False | Some col \<Rightarrow> list_all is_list col)"
| "well_formed_df (Series vals) =
     (case dict_get vals ''hpo_all'' of None \<Rightarrow> False | Some c \<Rightarrow> is_list c)"

text \<open>An array of two individuals, with a feature and a list of terms each.\<close>

definition demo_array :: hpo_df where
  "demo_array = NdArray2 [[Feature 1, HpoList [''HP:0000729'', ''HP:0001250'', ''nonsense'', ''HP:0000708'', ''HP:0001250'']],
                          [Feature 2, HpoList [''HP:0000271'', ''HP:0001249'']]]"

text \<open>
  An integer is an index into an axis of size \<open>n\<close> when it lies between \<open>- n\<close> and
  \<open>n - 1\<close>; \<open>pos n i\<close> is the position it denotes.
\<close>

definition in_range :: "nat \<Rightarrow> int \<Rightarrow> bool" where
  "in_range n i \<longleftrightarrow> - int n \<le> i \<and> i < int n"

definition pos :: "nat \<Rightarrow> int \<Rightarrow> nat" where
  "pos n i = (if i < 0 then nat (int n + i) else nat i)"

text \<open>
  The mean of the similarities of individual \<open>i\<close> to the training individuals whose
  label is \<open>label\<close>, in the order of the training indices; \<open>None\<close> (NaN) when there is
  no such individual.
\<close>

definition group_mean :: "real list list \<Rightarrow> int list \<Rightarrow> int list \<Rightarrow> int \<Rightarrow> int \<Rightarrow> real option" where
  "group_mean sim_mat train_index y_train label i =
     np_average (map (\<lambda>j. sim_mat ! pos (length sim_mat) i ! pos (length sim_mat) j)
                     (map fst (filter (\<lambda>(j, y). y = label) (zip train_index y_train))))"

fun index_list :: "index \<Rightarrow> int list" where
  "index_list (IndexArray idx) = idx"
| "index_list (IndexScalar k) = [k]"

definition demo_sim_mat :: "real list list" where
  "demo_sim_mat = [[1, 1 / 2, 0, 1 / 4], [1 / 2, 1, 1 / 4, 0], [0, 1 / 4, 1, 3 / 4], [1 / 4, 0, 3 / 4, 1]]"

text \<open>The ancestors of a node together with the node itself.\<close>

definition ancestor_closure :: "'d graph \<Rightarrow> string \<Rightarrow> string set" where
  "ancestor_closure g t = (case nx_ancestors g t of Inl e \<Rightarrow> {} | Inr anc \<Rightarrow> insert t (set anc))"

text \<open>
  A term of the input contributes a node when the term resolves to a node of the graph,
  directly or by the scan of the alternate IDs, and the node lies in the ancestor closure
  of the node the term resolves to.
\<close>

definition contributes :: "'a node_data_scheme graph \<Rightarrow> string \<Rightarrow> string \<Rightarrow> bool" where
  "contributes g hpo n \<longleftrightarrow>
     alt_scan g hpo \<in> set (node_ids g) \<and> n \<in> ancestor_closure g (alt_scan g hpo)"


text \<open>Adding \<open>f n\<close> to the counter of every node \<open>n\<close>.\<close>

definition bump :: "(string \<Rightarrow> nat) \<Rightarrow> anode_data graph \<Rightarrow> anode_data graph" where
  "bump f g =
     g\<lparr>nodes := map (\<lambda>(n, d). (n, d\<lparr>present_in_patient := present_in_patient d + f n\<rparr>))
                     (nodes g)\<rparr>"



section \<open>Facts about the best-match average\<close>



lemma foldl_max_acc:
  "foldl (\<lambda>m t. max m (f t)) (m0::real) ts = Max (insert m0 (f ` set ts))"
proof (induction ts arbitrary: m0)
  case Nil
  then show ?case by simp
next
  case (Cons t ts)
  have "Max (insert (max m0 (f t)) (f ` set ts)) = Max (insert m0 (insert (f t) (f ` set ts)))"
  proof (cases "set ts = {}")
    case True
    then show ?thesis by simp
  next
    case False
    then show ?thesis by (simp add: max.assoc)
  qed
  with Cons show ?case by simp
qed

lemma max_score_Max: "max_score f ts = Max (insert 0 (f ` set ts))"
  by (simp add: max_score_def foldl_max_acc)

lemma max_score_cong_set: "set ts = set ts' \<Longrightarrow> max_score f ts = max_score f ts'"
  by (simp add: max_score_Max)


lemma proc_terms_char:
  "proc_terms self ts =
     (if \<forall>t \<in> set ts. t \<in> set (node_ids (hpo_network self)) \<longrightarrow> resolve_term self t \<noteq> Inl KeyError
      then Inr (map (\<lambda>t. projr (resolve_term self t)) (filter (\<lambda>t. t \<in> set (node_ids (hpo_network self))) ts))
      else Inl KeyError)"
  by (induction ts) (auto simp: resolve_term_def split: if_splits sum.splits option.splits)


lemma bma_sum:
  "bma sc as bs =
     (if as = [] \<and> bs = [] then 0
      else (sum_list (map (\<lambda>a. max_score (\<lambda>b. sc a b) bs) as) +
            sum_list (map (\<lambda>b. max_score (\<lambda>a. sc a b) as) bs)) / real (length as + length bs))"
  by (simp add: bma_def np_average_def Let_def)




section \<open>Symmetry of calc_similarity\<close>





section \<open>Empty processed lists\<close>

text \<open>
  Claim C3.  Whenever the two processed lists exist (no lookup in the alias index raised)
  and one of them or both are empty, \<open>calc_similarity\<close> returns exactly 0; in
  particular, when no token of either list is a node of the loaded ontology, both
  processed lists are empty, nothing is looked up, and the result is 0 without an
  exception.
\<close>
theorem calc_similarity_empty_zero:
  "(\<forall>pa pb. proc_terms self terms_a = Inr pa \<longrightarrow> proc_terms self terms_b = Inr pb \<longrightarrow>
      pa = [] \<or> pb = [] \<longrightarrow> calc_similarity self terms_a terms_b = Inr 0) \<and>
   ((\<forall>t \<in> set terms_a \<union> set terms_b. t \<notin> set (node_ids (hpo_network self))) \<longrightarrow>
      calc_similarity self terms_a terms_b = Inr 0)"
proof (intro conjI allI impI)
  fix pa pb
  assume a: "proc_terms self terms_a = Inr pa" and b: "proc_terms self terms_b = Inr pb"
    and e: "pa = [] \<or> pb = []"
  have z: "\<And>f. max_score f [] = 0"
    by (simp add: max_score_def)
  from e have "bma (scorer self) pa pb = 0"
    by (auto simp: bma_sum z)
  with a b show "calc_similarity self terms_a terms_b = Inr 0"
    by (simp add: calc_similarity_def)
next
  assume n: "\<forall>t \<in> set terms_a \<union> set terms_b. t \<notin> set (node_ids (hpo_network self))"
  have f: "\<And>ts. \<forall>t \<in> set ts. t \<notin> set (node_ids (hpo_network self)) \<Longrightarrow> proc_terms self ts = Inr []"
    by (simp add: proc_terms_char)
  from n have "proc_terms self terms_a = Inr []" "proc_terms self terms_b = Inr []"
    by (auto intro: f)
  then show "calc_similarity self terms_a terms_b = Inr 0"
    by (simp add: calc_similarity_def bma_sum)
qed

theorem calc_similarity_empty_zero_witness:
  "proc_terms demo_engine [''nonsense'', ''Seizure''] = Inr [] \<and>
   proc_terms demo_engine [''HP:0001250''] = Inr [''HP:0001250''] \<and>
   calc_similarity demo_engine [''nonsense'', ''Seizure''] [''HP:0001250''] = Inr 0 \<and>
   calc_similarity demo_engine [''nonsense''] [''HP:9999999''] = Inr 0"
proof -
  have a: "proc_terms demo_engine [''nonsense'', ''Seizure''] = Inr []" by code_simp
  have b: "proc_terms demo_engine [''HP:0001250''] = Inr [''HP:0001250'']" by code_simp
  have n: "\<forall>t \<in> set [''nonsense''] \<union> set [''HP:9999999''].
             t \<notin> set (node_ids (hpo_network demo_engine))"
    by code_simp
  from calc_similarity_empty_zero [of demo_engine "[''nonsense'', ''Seizure'']" "[''HP:0001250'']"]
    a b
  have 1: "calc_similarity demo_engine [''nonsense'', ''Seizure''] [''HP:0001250''] = Inr 0"
    by simp
  from calc_similarity_empty_zero [of demo_engine "[''nonsense'']" "[''HP:9999999'']"] n
  have 2: "calc_similarity demo_engine [''nonsense''] [''HP:9999999''] = Inr 0"
    by blast
  from a b 1 2 show ?thesis by simp
qed

section \<open>Tokens given by display name\<close>

text \<open>
  Claim C4 on the code.  In the small ontology the alias index maps the display name
  \<open>Seizure\<close> to \<open>HP:0001250\<close>, which is a node; still the token \<open>Seizure\<close> is
  dropped, because the comprehension tests the token itself against the node set before
  the element expression resolves it.  The similarity of \<open>[Seizure]\<close> and
  \<open>[HP:0001250]\<close> is 0, that of \<open>[HP:0001250]\<close> with itself is 1.
\<close>
theorem calc_similarity_drops_display_name:
  "dict_get (name_to_id_and_reverse demo_engine) ''Seizure'' = Some ''HP:0001250'' \<and>
   ''HP:0001250'' \<in> set (node_ids (hpo_network demo_engine)) \<and>
   proc_terms demo_engine [''Seizure''] = Inr [] \<and>
   calc_similarity demo_engine [''Seizure''] [''HP:0001250''] = Inr 0 \<and>
   calc_similarity demo_engine [''HP:0001250''] [''HP:0001250''] = Inr 1"
  by code_simp

section \<open>Order and duplicates\<close>





section \<open>Facts about dictionaries\<close>


lemma dict_get_dict_set:
  "dict_get (dict_set d k v) k' = (if k' = k then Some v else dict_get d k')"
  by (induction d) (auto simp: dict_get_def)







section \<open>Entries of the alias index\<close>





section \<open>What a call changes in the engine\<close>









section \<open>The exclusion filter\<close>


lemma sequence_map_Inr:
  "(\<And>x. x \<in> set xs \<Longrightarrow> f x = Inr (g x)) \<Longrightarrow> sequence (map f xs) = Inr (map g xs)"
  by (induction xs) auto

lemma nx_descendants_set:
  "r \<in> set (node_ids g) \<Longrightarrow>
     \<exists>ds. nx_descendants g r = Inr ds \<and>
          set ds = {t. t \<in> set (node_ids g) \<and> reaches g r t \<and> t \<noteq> r}"
  by (auto simp: nx_descendants_def)

lemma exclude_list_set:
  "set roots \<subseteq> set (node_ids g) \<Longrightarrow>
     \<exists>ex. exclude_list g roots = Inr ex \<and>
          set ex = {t. \<exists>r \<in> set roots. t = r \<or> (t \<in> set (node_ids g) \<and> reaches g r t)}"
proof (induction roots)
  case Nil
  then show ?case by simp
next
  case (Cons r roots)
  then obtain ex where ex: "exclude_list g roots = Inr ex"
      "set ex = {t. \<exists>r \<in> set roots. t = r \<or> (t \<in> set (node_ids g) \<and> reaches g r t)}"
    by auto
  from Cons.prems obtain ds where ds: "nx_descendants g r = Inr ds"
      "set ds = {t. t \<in> set (node_ids g) \<and> reaches g r t \<and> t \<noteq> r}"
    using nx_descendants_set [of r g] by auto
  have "exclude_list g (r # roots) = Inr (ds @ [r] @ ex)"
    by (simp add: ex ds)
  moreover have "set (ds @ [r] @ ex) =
      {t. \<exists>r' \<in> set (r # roots). t = r' \<or> (t \<in> set (node_ids g) \<and> reaches g r' t)}"
    using ex(2) ds(2) by auto
  ultimately show ?case by blast
qed

lemma filter_prelude_excluded:
  assumes "set parents_to_exclude \<subseteq> set (node_ids (hpo_network self))"
  shows "\<exists>ex. fst (filter_prelude self) = Inr ex \<and>
           (\<forall>t. t \<in> set ex \<longleftrightarrow> is_excluded (hpo_network self) t)"
proof -
  from exclude_list_set [OF assms] obtain ex where
    "exclude_list (hpo_network self) parents_to_exclude = Inr ex"
    "set ex = {t. \<exists>r \<in> set parents_to_exclude.
                  t = r \<or> (t \<in> set (node_ids (hpo_network self)) \<and> reaches (hpo_network self) r t)}"
    by blast
  then show ?thesis
    by (auto simp: filter_prelude_def Let_def is_excluded_def)
qed

lemma filter_cell_list:
  "is_list c \<Longrightarrow> filter_cell ex c = Inr (HpoList (filter (\<lambda>i. i \<notin> set ex) (cell_terms c)))"
  by (cases c) auto

lemma filter_last_list:
  "row \<noteq> [] \<Longrightarrow> is_list (last row) \<Longrightarrow>
     filter_last ex row = Inr (butlast row @ [HpoList (filter (\<lambda>i. i \<notin> set ex) (cell_terms (last row)))])"
  by (simp add: filter_last_def filter_cell_list)

lemma filter_shape_term_lists:
  assumes "well_formed_df df"
  shows "\<exists>out. filter_shape ex df = Inr out \<and>
           length (term_lists out) = length (term_lists df) \<and>
           (\<forall>i < length (term_lists df).
              set (term_lists out ! i) = {t \<in> set (term_lists df ! i). t \<notin> set ex} \<and>
              ((\<forall>l. df \<noteq> PyList l) \<longrightarrow>
                 term_lists out ! i = filter (\<lambda>t. t \<notin> set ex) (term_lists df ! i)))"
proof (cases df)
  case (PyList l)
  then show ?thesis by (auto simp: filter_shape_def)
next
  case (NdArray1 cells)
  with assms have wf: "\<And>c. c \<in> set cells \<Longrightarrow> is_list c" by (simp add: list_all_iff)
  have "sequence (map (\<lambda>c. filter_last ex [c]) cells) =
        Inr (map (\<lambda>c. [HpoList (filter (\<lambda>i. i \<notin> set ex) (cell_terms c))]) cells)"
    by (rule sequence_map_Inr) (simp add: filter_last_list wf)
  then show ?thesis using NdArray1 by (simp add: filter_shape_def o_def)
next
  case (NdArray2 rows)
  with assms have wf: "\<And>row. row \<in> set rows \<Longrightarrow> row \<noteq> [] \<and> is_list (last row)"
    by (simp add: list_all_iff)
  have "sequence (map (filter_last ex) rows) =
        Inr (map (\<lambda>row. butlast row @ [HpoList (filter (\<lambda>i. i \<notin> set ex) (cell_terms (last row)))]) rows)"
    by (rule sequence_map_Inr) (simp add: filter_last_list wf)
  then show ?thesis using NdArray2 by (simp add: filter_shape_def o_def)
next
  case (DataFrame cols)
  with assms obtain col where col: "dict_get cols ''hpo_all'' = Some col"
    and wf: "\<And>c. c \<in> set col \<Longrightarrow> is_list c"
    by (auto simp: list_all_iff split: option.splits)
  have "sequence (map (filter_cell ex) col) =
        Inr (map (\<lambda>c. HpoList (filter (\<lambda>i. i \<notin> set ex) (cell_terms c))) col)"
    by (rule sequence_map_Inr) (simp add: filter_cell_list wf)
  then show ?thesis using DataFrame col
    by (simp add: filter_shape_def dict_get_dict_set o_def)
next
  case (Series vals)
  with assms obtain c where c: "dict_get vals ''hpo_all'' = Some c" and wf: "is_list c"
    by (auto split: option.splits)
  then show ?thesis using Series
    by (simp add: filter_shape_def dict_get_dict_set filter_cell_list)
qed

text \<open>
  Claim C6.  On an ontology that contains the five configured roots, \<open>filter_hpo_df\<close>
  returns, for every well-formed collection, a collection with as many term lists as the
  input, in which a term occurs in a list exactly when it occurs in the corresponding
  input list and is neither an excluded root nor a descendant of one.  For the array and
  table shapes each list is the input list with the excluded terms removed, the other
  terms in place; for a plain list the result lists the same set of remaining terms.
\<close>

theorem filter_hpo_df_excluded_subtrees:
  assumes "set parents_to_exclude \<subseteq> set (node_ids (hpo_network self))"
    and "well_formed_df df"
  shows "\<exists>out. fst (filter_hpo_df self df) = Inr out \<and>
           length (term_lists out) = length (term_lists df) \<and>
           (\<forall>i < length (term_lists df).
              (\<forall>t. t \<in> set (term_lists out ! i) \<longleftrightarrow>
                     t \<in> set (term_lists df ! i) \<and> \<not> is_excluded (hpo_network self) t) \<and>
              ((\<forall>l. df \<noteq> PyList l) \<longrightarrow>
                 term_lists out ! i =
                   filter (\<lambda>t. \<not> is_excluded (hpo_network self) t) (term_lists df ! i)))"
proof -
  from filter_prelude_excluded [OF assms(1)] obtain ex where
    ex: "fst (filter_prelude self) = Inr ex"
        "\<And>t. t \<in> set ex \<longleftrightarrow> is_excluded (hpo_network self) t"
    by blast
  have eq: "\<And>t. is_excluded (hpo_network self) t \<longleftrightarrow> t \<in> set ex"
    using ex(2) by simp
  have run: "fst (filter_hpo_df self df) = filter_shape ex df"
    using ex(1) by (cases "filter_prelude self") (simp add: filter_hpo_df_def)
  from filter_shape_term_lists [OF assms(2), of ex]
  show ?thesis unfolding run eq by auto
qed

theorem filter_hpo_df_excluded_subtrees_witness:
  "set parents_to_exclude \<subseteq> set (node_ids (hpo_network demo_engine)) \<and>
   well_formed_df demo_array \<and>
   fst (filter_hpo_df demo_engine demo_array)
     = Inr (NdArray2 [[Feature 1, HpoList [''HP:0001250'', ''nonsense'', ''HP:0001250'']],
                      [Feature 2, HpoList [''HP:0001249'']]]) \<and>
   is_excluded (hpo_network demo_engine) ''HP:0000729'' \<and>
   \<not> is_excluded (hpo_network demo_engine) ''HP:0001250''"
proof -
  have a: "set parents_to_exclude \<subseteq> set (node_ids (hpo_network demo_engine))"
    by code_simp
  have b: "well_formed_df demo_array" by code_simp
  have c: "fst (filter_hpo_df demo_engine demo_array)
     = Inr (NdArray2 [[Feature 1, HpoList [''HP:0001250'', ''nonsense'', ''HP:0001250'']],
                      [Feature 2, HpoList [''HP:0001249'']]])"
    by code_simp
  have d: "is_excluded (hpo_network demo_engine) ''HP:0000729''" by code_simp
  have e: "\<not> is_excluded (hpo_network demo_engine) ''HP:0001250''" by code_simp
  from filter_hpo_df_excluded_subtrees [OF a b] a b c d e show ?thesis by simp
qed


section \<open>The two features of calc_sim_scores\<close>


lemma bind_err_Inr: "bind_err (Inr v) f = f v"
  by (simp add: bind_err_def)

lemma pos_less: "in_range n i \<Longrightarrow> pos n i < n"
  by (auto simp: in_range_def pos_def)

lemma norm_index_pos: "in_range n i \<Longrightarrow> norm_index n i = Inr (pos n i)"
  by (auto simp: in_range_def pos_def norm_index_def)

lemma take_index_pos: "in_range (length xs) i \<Longrightarrow> take_index xs i = Inr (xs ! pos (length xs) i)"
  by (simp add: take_index_def norm_index_pos bind_err_Inr)

lemma take_indices_pos:
  "\<forall>i \<in> set idx. in_range (length xs) i \<Longrightarrow>
     take_indices xs idx = Inr (map (\<lambda>i. xs ! pos (length xs) i) idx)"
  unfolding take_indices_def by (rule sequence_map_Inr) (simp add: take_index_pos)

lemma take_columns_pos:
  assumes "\<forall>row \<in> set rows. length row = m" and "\<forall>j \<in> set idx. in_range m j"
  shows "take_columns rows idx = Inr (map (\<lambda>row. map (\<lambda>j. row ! pos m j) idx) rows)"
  unfolding take_columns_def
proof (rule sequence_map_Inr)
  fix row assume "row \<in> set rows"
  with assms have "length row = m" by simp
  with assms(2) show "take_indices row idx = Inr (map (\<lambda>j. row ! pos m j) idx)"
    using take_indices_pos [of idx row] by simp
qed

lemma select_mask_map:
  "length js = length ys \<Longrightarrow>
     select_mask (map P ys) (map f js) = map f (map fst (filter (\<lambda>(j, y). P y) (zip js ys)))"
  by (induction js ys rule: list_induct2) (auto simp: select_mask_def)

lemma append_columns_map:
  "append_columns (map a xs) (map b xs) = map (\<lambda>x. [a x, b x]) xs"
  by (induction xs) (auto simp: append_columns_def)

lemma calc_sim_scores_map:
  assumes sq: "\<forall>row \<in> set sim_mat. length row = length sim_mat"
    and tr: "\<forall>i \<in> set train_index. in_range (length sim_mat) i"
    and te: "\<forall>i \<in> set (index_list test_index). in_range (length sim_mat) i"
    and y: "length y_train = length train_index"
  shows "calc_sim_scores sim_mat train_index test_index y_train =
           Inr (map (\<lambda>i. [group_mean sim_mat train_index y_train 1 i,
                            group_mean sim_mat train_index y_train 0 i]) train_index,
                map (\<lambda>i. [group_mean sim_mat train_index y_train 1 i,
                            group_mean sim_mat train_index y_train 0 i]) (index_list test_index))"
proof -
  let ?n = "length sim_mat"
  let ?cols = "map (\<lambda>row. map (\<lambda>j. row ! pos ?n j) train_index) sim_mat"
  let ?row = "\<lambda>i. map (\<lambda>j. sim_mat ! pos ?n i ! pos ?n j) train_index"
  have cols: "take_columns sim_mat train_index = Inr ?cols"
    using take_columns_pos [OF sq tr] .
  have len: "length ?cols = ?n" by simp
  have nth: "\<And>i. in_range ?n i \<Longrightarrow> ?cols ! pos ?n i = ?row i"
    by (simp add: pos_less)
  have sel: "\<And>idx. \<forall>i \<in> set idx. in_range ?n i \<Longrightarrow> take_indices ?cols idx = Inr (map ?row idx)"
  proof -
    fix idx assume a: "\<forall>i \<in> set idx. in_range ?n i"
    then have "take_indices ?cols idx = Inr (map (\<lambda>i. ?cols ! pos (length ?cols) i) idx)"
      by (intro take_indices_pos) simp
    also have "map (\<lambda>i. ?cols ! pos (length ?cols) i) idx = map ?row idx"
      using a by (intro map_cong refl) (simp add: pos_less)
    finally show "take_indices ?cols idx = Inr (map ?row idx)" .
  qed
  have one: "\<And>k. in_range ?n k \<Longrightarrow> take_index ?cols k = Inr (?row k)"
    using take_index_pos [of ?cols] nth by simp
  have msk: "\<And>rows l. mask_columns (length train_index) rows (map (\<lambda>y. y = l) y_train)
        = Inr (map (select_mask (map (\<lambda>y. y = l) y_train)) rows)"
    by (simp add: mask_columns_def y)
  have grp: "\<And>l i. np_average (select_mask (map (\<lambda>y. y = l) y_train) (?row i))
        = group_mean sim_mat train_index y_train l i"
    using y by (simp add: select_mask_map group_mean_def)
  have means: "\<And>l idx. row_means (map (select_mask (map (\<lambda>y. y = l) y_train)) (map ?row idx))
        = map (group_mean sim_mat train_index y_train l) idx"
    by (simp add: row_means_def grp o_def)
  let ?feat = "\<lambda>i. [group_mean sim_mat train_index y_train 1 i,
                     group_mean sim_mat train_index y_train 0 i]"
  have feat: "\<And>idx.
      append_columns (row_means (map (select_mask (map (\<lambda>y. y = 1) y_train)) (map ?row idx)))
                     (row_means (map (select_mask (map (\<lambda>y. y = 0) y_train)) (map ?row idx)))
        = map ?feat idx"
    by (simp only: means append_columns_map)
  show ?thesis
  proof (cases test_index)
    case (IndexArray idx)
    with te have r: "\<forall>i \<in> set idx. in_range ?n i" by simp
    show ?thesis
      unfolding calc_sim_scores_def IndexArray
      by (simp only: cols bind_err_Inr Let_def sel [OF tr] sel [OF r] index.case msk feat
            index_list.simps)
  next
    case (IndexScalar k)
    with te have k: "in_range ?n k" by simp
    have single: "[?row k] = map ?row [k]" by simp
    show ?thesis
      unfolding calc_sim_scores_def IndexScalar
      by (simp only: cols bind_err_Inr Let_def sel [OF tr] one [OF k] index.case msk single feat
            index_list.simps)
  qed
qed

text \<open>
  Claim C7.  For a square similarity matrix, training indices and test indices within
  its range and one label for each training index, \<open>calc_sim_scores\<close> returns a table
  with one row for each training index and a table with one row for each test index, in
  the order of the indices; row \<open>n\<close> holds, for the individual at index \<open>n\<close>, the mean of
  its similarities to the training individuals labelled 1 and the mean of its
  similarities to those labelled 0 (NaN when there is none).  A single integer as test
  index, which makes the test slice one-dimensional, gives a table of one row.
\<close>

theorem calc_sim_scores_features:
  assumes "\<forall>row \<in> set sim_mat. length row = length sim_mat"
    and "\<forall>i \<in> set train_index. in_range (length sim_mat) i"
    and "\<forall>i \<in> set (index_list test_index). in_range (length sim_mat) i"
    and "length y_train = length train_index"
  shows "\<exists>train test.
           calc_sim_scores sim_mat train_index test_index y_train = Inr (train, test) \<and>
           length train = length train_index \<and>
           length test = length (index_list test_index) \<and>
           (\<forall>n < length train_index.
              train ! n = [group_mean sim_mat train_index y_train 1 (train_index ! n),
                           group_mean sim_mat train_index y_train 0 (train_index ! n)]) \<and>
           (\<forall>n < length (index_list test_index).
              test ! n = [group_mean sim_mat train_index y_train 1 (index_list test_index ! n),
                          group_mean sim_mat train_index y_train 0 (index_list test_index ! n)])"
  by (simp add: calc_sim_scores_map [OF assms])

theorem calc_sim_scores_features_witness:
  "calc_sim_scores demo_sim_mat [0, 1, 3] (IndexArray [2, -1]) [1, 0, 1]
     = Inr ([[Some (5 / 8), Some (1 / 2)], [Some (1 / 4), Some 1], [Some (5 / 8), Some 0]],
            [[Some (3 / 8), Some (1 / 4)], [Some (5 / 8), Some 0]]) \<and>
   calc_sim_scores demo_sim_mat [0, 1, 3] (IndexScalar 2) [1, 0, 1]
     = Inr ([[Some (5 / 8), Some (1 / 2)], [Some (1 / 4), Some 1], [Some (5 / 8), Some 0]],
            [[Some (3 / 8), Some (1 / 4)]]) \<and>
   group_mean demo_sim_mat [0, 1, 3] [1, 0, 1] 1 2 = Some (3 / 8)"
proof -
  have sq: "\<forall>row \<in> set demo_sim_mat. length row = length demo_sim_mat"
    by (simp add: demo_sim_mat_def)
  have tr: "\<forall>i \<in> set [0, 1, 3]. in_range (length demo_sim_mat) i"
    by (simp add: demo_sim_mat_def in_range_def)
  have te: "\<forall>i \<in> set (index_list (IndexArray [2, -1])). in_range (length demo_sim_mat) i"
    by (simp add: demo_sim_mat_def in_range_def)
  have te1: "\<forall>i \<in> set (index_list (IndexScalar 2)). in_range (length demo_sim_mat) i"
    by (simp add: demo_sim_mat_def in_range_def)
  have y: "length [1, 0, 1 :: int] = length [0, 1, 3 :: int]" by simp
  have a: "calc_sim_scores demo_sim_mat [0, 1, 3] (IndexArray [2, -1]) [1, 0, 1]
     = Inr ([[Some (5 / 8), Some (1 / 2)], [Some (1 / 4), Some 1], [Some (5 / 8), Some 0]],
            [[Some (3 / 8), Some (1 / 4)], [Some (5 / 8), Some 0]])"
    by code_simp
  have b: "calc_sim_scores demo_sim_mat [0, 1, 3] (IndexScalar 2) [1, 0, 1]
     = Inr ([[Some (5 / 8), Some (1 / 2)], [Some (1 / 4), Some 1], [Some (5 / 8), Some 0]],
            [[Some (3 / 8), Some (1 / 4)]])"
    by code_simp
  from calc_sim_scores_features [OF sq tr te y] a
  have "[[Some (3 / 8), Some (1 / 4)], [Some (5 / 8), Some 0]] ! 0
     = [group_mean demo_sim_mat [0, 1, 3] [1, 0, 1] 1 (index_list (IndexArray [2, -1]) ! 0),
        group_mean demo_sim_mat [0, 1, 3] [1, 0, 1] 0 (index_list (IndexArray [2, -1]) ! 0)]"
    by auto
  then have c: "group_mean demo_sim_mat [0, 1, 3] [1, 0, 1] 1 2 = Some (3 / 8)" by simp
  from calc_sim_scores_features [OF sq tr te1 y] a b c show ?thesis by simp
qed


section \<open>The subgraph built by get_graph\<close>

subsection \<open>Counters\<close>


lemma node_ids_bump: "node_ids (bump f g) = node_ids g"
  by (simp add: bump_def node_ids_def o_def split_beta)

lemma edges_bump: "edges (bump f g) = edges g"
  by (simp add: bump_def)

lemma find_map_fst:
  "(\<And>x. P (h x) = Q x) \<Longrightarrow> find P (map h xs) = map_option h (find Q xs)"
  by (induction xs) auto

lemma alt_scan_bump: "alt_scan (bump f g) t = alt_scan g t"
proof -
  have "find (\<lambda>(n, d). has_alt d t) (nodes (bump f g)) =
        map_option (\<lambda>(n, d). (n, d\<lparr>present_in_patient := present_in_patient d + f n\<rparr>))
          (find (\<lambda>(n, d). has_alt d t) (nodes g))"
    unfolding bump_def
    by (simp, rule find_map_fst) (auto simp: has_alt_def split: option.splits)
  then show ?thesis
    by (auto simp: alt_scan_def node_ids_bump split: option.splits)
qed

lemma nx_ancestors_bump: "nx_ancestors (bump f g) t = nx_ancestors g t"
  by (simp add: nx_ancestors_def node_ids_bump reaches_def edges_bump)

lemma contributes_bump: "contributes (bump f g) t n = contributes g t n"
  by (simp add: contributes_def ancestor_closure_def alt_scan_bump nx_ancestors_bump node_ids_bump)








subsection \<open>Relabelling\<close>























section \<open>The cohort matrix\<close>








text \<open>
  An array without rows has no cell \<^verbatim>\<open>x[0, -1]\<close>; and when that cell is no list,
  the call ends with an exception on every path.
\<close>

lemma calc_full_sim_mat_empty: "calc_full_sim_mat self [] mlb = (Inl IndexError, self)"
  by (simp add: calc_full_sim_mat_def)

lemma calc_full_sim_mat_binarized:
  assumes "x \<noteq> []" and "hd x \<noteq> []" and "last (hd x) = Feature v"
  shows "\<exists>e. fst (calc_full_sim_mat self x mlb) = Inl e"
  using assms
  by (cases "filter_prelude self")
     (auto simp: calc_full_sim_mat_def split: option.splits sum.splits)






end
